theory Spec2Isabelle
  imports Complex_Main
begin

section \<open>Python strings\<close>

text \<open>
  A Python \<^verbatim>\<open>str\<close> is a sequence of Unicode code points, and \<^verbatim>\<open>len\<close>, slicing,
  \<^verbatim>\<open>strip\<close>, \<^verbatim>\<open>splitlines\<close> and the \<^verbatim>\<open>re\<close> classes all work on code points. The source has
  literals beyond Latin-1 (the bullet U+2022, the en dash U+2013), so a string is a list of
  code points, each a natural number; \<open>lit\<close> embeds an ASCII literal.
\<close>

type_synonym ustr = "nat list"

definition lit :: "string \<Rightarrow> ustr" where
  "lit s = map of_char s"

definition nl :: ustr where
  "nl = [10]"

text \<open>\<^verbatim>\<open>str.isspace\<close>, which is also the class \<^verbatim>\<open>\s\<close> of \<^verbatim>\<open>re\<close> on \<^verbatim>\<open>str\<close> patterns and the
  set that \<^verbatim>\<open>str.strip()\<close> removes.\<close>

definition isspace :: "nat \<Rightarrow> bool" where
  "isspace c \<longleftrightarrow>
     (9 \<le> c \<and> c \<le> 13) \<or> (28 \<le> c \<and> c \<le> 32) \<or> c = 133 \<or> c = 160 \<or> c = 5760 \<or>
     (8192 \<le> c \<and> c \<le> 8202) \<or> c = 8232 \<or> c = 8233 \<or> c = 8239 \<or> c = 8287 \<or> c = 12288"

text \<open>\<^verbatim>\<open>s.strip(chars)\<close>: drop the characters of the class at both ends.\<close>

definition strip_class :: "(nat \<Rightarrow> bool) \<Rightarrow> ustr \<Rightarrow> ustr" where
  "strip_class P s = rev (dropWhile P (rev (dropWhile P s)))"

definition strip :: "ustr \<Rightarrow> ustr" where
  "strip s = strip_class isspace s"

definition startswith :: "ustr \<Rightarrow> ustr \<Rightarrow> bool" where
  "startswith s p \<longleftrightarrow> take (length p) s = p"

text \<open>\<^verbatim>\<open>p in s\<close> on strings: \<open>p\<close> occurs in \<open>s\<close> as a contiguous run.\<close>

fun contains :: "ustr \<Rightarrow> ustr \<Rightarrow> bool" where
  "contains [] p = (p = [])"
| "contains (c # cs) p = (startswith (c # cs) p \<or> contains cs p)"

text \<open>The line boundaries of \<^verbatim>\<open>str.splitlines()\<close>; \<^verbatim>\<open>\r\n\<close> counts as one boundary, and a
  boundary at the very end opens no further line.\<close>

definition linebreak :: "nat \<Rightarrow> bool" where
  "linebreak c \<longleftrightarrow> (10 \<le> c \<and> c \<le> 13) \<or> (28 \<le> c \<and> c \<le> 30) \<or> c = 133 \<or> c = 8232 \<or> c = 8233"

fun splitlines_from :: "ustr \<Rightarrow> ustr \<Rightarrow> ustr list" where
  "splitlines_from cur [] = (if cur = [] then [] else [cur])"
| "splitlines_from cur [c] = (if linebreak c then [cur] else [cur @ [c]])"
| "splitlines_from cur (c # d # cs) =
     (if c = 13 \<and> d = 10 then cur # splitlines_from [] cs
      else if linebreak c then cur # splitlines_from [] (d # cs)
      else splitlines_from (cur @ [c]) (d # cs))"

definition splitlines :: "ustr \<Rightarrow> ustr list" where
  "splitlines s = splitlines_from [] s"

text \<open>\<^verbatim>\<open>str(n)\<close> of an integer: decimal digits, with a minus sign below zero.\<close>

fun digits_of :: "nat \<Rightarrow> ustr" where
  "digits_of n = (if n < 10 then [48 + n] else digits_of (n div 10) @ [48 + n mod 10])"

declare digits_of.simps [simp del]

definition str_int :: "int \<Rightarrow> ustr" where
  "str_int i = (if i < 0 then 45 # digits_of (nat (- i)) else digits_of (nat i))"

text \<open>\<^verbatim>\<open>sep.join(xs)\<close>.\<close>

fun join :: "ustr \<Rightarrow> ustr list \<Rightarrow> ustr" where
  "join sep [] = []"
| "join sep [x] = x"
| "join sep (x # y # ys) = x @ sep @ join sep (y # ys)"

section \<open>Exceptions and the values the accessors return\<close>

text \<open>
  Every exception here derives from \<^verbatim>\<open>Exception\<close>. What the program can tell about an
  exception is its message (\<^verbatim>\<open>str(e)\<close>) and which of the classes named in an
  \<^verbatim>\<open>except\<close> clause it is an instance of; an exception class of \<^verbatim>\<open>requests\<close> may
  derive from several of them, so an exception carries the list of those it belongs to.
\<close>

datatype pyclass =
  WebsiteNotImplementedError | RequestException | TypeError | ValueError | OverflowError

datatype exn = Exn (classes: "pyclass list") (message: ustr)

definition isinstance :: "exn \<Rightarrow> pyclass \<Rightarrow> bool" where
  "isinstance e c \<longleftrightarrow> c \<in> set (classes e)"

text \<open>A Python float is a finite rational, an infinity or NaN. \<^verbatim>\<open>int(x)\<close> truncates a
  finite float toward zero, raises \<^verbatim>\<open>OverflowError\<close> on an infinity and
  \<^verbatim>\<open>ValueError\<close> on NaN.\<close>

datatype pyfloat = Finite rat | Infinite | NaN

definition int_of_float :: "pyfloat \<Rightarrow> exn + int" where
  "int_of_float x =
     (case x of
        Finite q \<Rightarrow> Inr (if 0 \<le> q then \<lfloor>q\<rfloor> else \<lceil>q\<rceil>)
      | Infinite \<Rightarrow> Inl (Exn [OverflowError] (lit ''cannot convert float infinity to integer''))
      | NaN \<Rightarrow> Inl (Exn [ValueError] (lit ''cannot convert float NaN to integer'')))"

text \<open>What a time accessor returns: \<^verbatim>\<open>None\<close>, an \<^verbatim>\<open>int\<close> (a \<^verbatim>\<open>bool\<close> is the int 0 or
  1), a \<^verbatim>\<open>float\<close>, or any other object, given by its \<^verbatim>\<open>str\<close>.\<close>

datatype timeval = TNone | TInt int | TFloat pyfloat | TStr ustr

text \<open>
  The scraper object of \<^verbatim>\<open>recipe_scrapers\<close>. The five accessors the program calls
  directly (\<^verbatim>\<open>scraper.title()\<close> and so on) either raise or return; \<^verbatim>\<open>None\<close> is
  \<open>Inr None\<close>. The time accessors are reached through \<^verbatim>\<open>hasattr\<close> and \<^verbatim>\<open>getattr\<close> by
  name, so the object also has a table of named attributes, each with the outcome of
  calling it.
\<close>

record scraper =
  title :: "exn + ustr option"
  yields :: "exn + ustr option"
  description :: "exn + ustr option"
  ingredients :: "exn + ustr list option"
  instructions :: "exn + ustr option"
  attrs :: "string \<rightharpoonup> exn + timeval"

text \<open>The response of \<^verbatim>\<open>requests.get\<close>: \<^verbatim>\<open>raise_for_status()\<close> raises on an HTTP error
  status, \<open>resp_text\<close> is the attribute \<^verbatim>\<open>text\<close>, the markup.\<close>

record response =
  raise_for_status :: "exn + unit"
  resp_text :: ustr

text \<open>The three library calls that reach outside the program.\<close>

record env =
  scrape_me :: "ustr \<Rightarrow> exn + scraper"
  requests_get :: "ustr \<Rightarrow> exn + response"
  scrape_html :: "ustr \<Rightarrow> ustr \<Rightarrow> exn + scraper"

section \<open>The window\<close>

text \<open>
  The text widget holds the segments inserted so far, each with the tag given to
  \<^verbatim>\<open>insert\<close> (some inserts give none); \<^verbatim>\<open>delete(1.0, tk.END)\<close> empties it. The state of
  the program is the entry field, the widget, the warning dialogs shown and the library
  calls made, in order.
\<close>

datatype tag = Title | Heading | Body | Note | Error

type_synonym segment = "ustr \<times> tag option"

datatype call = ScrapeMe ustr | RequestsGet ustr | ScrapeHtml ustr ustr

record gui =
  url_entry :: ustr
  output_text :: "segment list"
  warnings :: "(ustr \<times> ustr) list"
  calls :: "call list"

text \<open>
  A statement inside a \<^verbatim>\<open>try\<close> block acts on the widget and either returns or raises;
  what was inserted before a raise stays in the widget.
\<close>

type_synonym 'a action = "segment list \<Rightarrow> (exn + 'a) \<times> segment list"

definition call_result :: "exn + 'a \<Rightarrow> 'a action" where
  "call_result r = (\<lambda>w. (r, w))"

definition insert_end :: "ustr \<Rightarrow> tag option \<Rightarrow> unit action" where
  "insert_end s t = (\<lambda>w. (Inr (), w @ [(s, t)]))"

definition delete_all :: "unit action" where
  "delete_all = (\<lambda>w. (Inr (), []))"

definition and_then :: "'a action \<Rightarrow> ('a \<Rightarrow> 'b action) \<Rightarrow> 'b action" where
  "and_then m f = (\<lambda>w. case m w of (Inl e, w') \<Rightarrow> (Inl e, w') | (Inr x, w') \<Rightarrow> f x w')"

section \<open>summarize_recipe, step 2: building the output\<close>

text \<open>\<^verbatim>\<open>value or default\<close>: \<^verbatim>\<open>None\<close> and the empty string are both false.\<close>

definition or_default :: "ustr option \<Rightarrow> ustr \<Rightarrow> ustr" where
  "or_default v d = (case v of None \<Rightarrow> d | Some s \<Rightarrow> if s = [] then d else s)"

text \<open>Lines 111 to 113: the description, cut to 597 characters and an ellipsis when it
  has more than 600.\<close>

definition description_text :: "ustr option \<Rightarrow> ustr" where
  "description_text v =
     (let d = or_default v (lit ''No description available.'')
      in if length d > 600 then take 597 d @ lit ''...'' else d)"

text \<open>Lines 117 to 121: the attribute names probed and their labels.\<close>

definition time_methods :: "(string \<times> ustr) list" where
  "time_methods =
     [(''total_time'', lit ''Total''), (''preptime'', lit ''Prep''), (''cooktime'', lit ''Cook'')]"

text \<open>Lines 127 to 132, the body of the inner \<^verbatim>\<open>try\<close>: what is appended to \<^verbatim>\<open>times\<close>.\<close>

definition time_try :: "exn + timeval \<Rightarrow> ustr \<Rightarrow> exn + ustr list" where
  "time_try getter label =
     (case getter of
        Inl e \<Rightarrow> Inl e
      | Inr TNone \<Rightarrow> Inr []
      | Inr (TInt n) \<Rightarrow> Inr [label @ lit '': '' @ str_int n @ lit '' min'']
      | Inr (TFloat x) \<Rightarrow>
          (case int_of_float x of
             Inl e \<Rightarrow> Inl e
           | Inr n \<Rightarrow> Inr [label @ lit '': '' @ str_int n @ lit '' min''])
      | Inr (TStr s) \<Rightarrow> Inr [label @ lit '': '' @ s])"

text \<open>Lines 123 to 134: the loop. An absent attribute is skipped; \<^verbatim>\<open>TypeError\<close> and
  \<^verbatim>\<open>ValueError\<close> are dropped; any other exception leaves the loop.\<close>

fun time_loop :: "scraper \<Rightarrow> (string \<times> ustr) list \<Rightarrow> ustr list \<Rightarrow> exn + ustr list" where
  "time_loop sc [] tms = Inr tms"
| "time_loop sc ((method_name, label) # rest) tms =
     (case attrs sc method_name of
        None \<Rightarrow> time_loop sc rest tms
      | Some getter \<Rightarrow>
          (case time_try getter label of
             Inl e \<Rightarrow>
               if isinstance e TypeError \<or> isinstance e ValueError
               then time_loop sc rest tms else Inl e
           | Inr new \<Rightarrow> time_loop sc rest (tms @ new)))"

text \<open>Lines 136 to 138.\<close>

definition time_str :: "bool \<Rightarrow> ustr list \<Rightarrow> ustr" where
  "time_str fallback_used tms =
     (let s = (if tms \<noteq> [] then join (lit '' | '') tms else lit ''Times not available'')
      in if fallback_used \<and> tms = [] then s @ lit '' (check original page)'' else s)"

text \<open>Lines 150 and 151, and lines 160 to 162.\<close>

fun insert_items :: "ustr list \<Rightarrow> unit action" where
  "insert_items [] = call_result (Inr ())"
| "insert_items (item # rest) =
     and_then (insert_end ([8226, 32] @ strip item @ nl) (Some Body)) (\<lambda>_. insert_items rest)"

definition steps_of :: "ustr \<Rightarrow> ustr list" where
  "steps_of instr_text = map strip (filter (\<lambda>s. strip s \<noteq> []) (splitlines instr_text))"

fun insert_steps :: "nat \<Rightarrow> ustr list \<Rightarrow> unit action" where
  "insert_steps i [] = call_result (Inr ())"
| "insert_steps i (step # rest) =
     and_then (insert_end (str_int (int i) @ lit ''. '' @ step @ nl) (Some Body))
       (\<lambda>_. insert_steps (Suc i) rest)"

text \<open>Lines 104 to 165, the body of the outer \<^verbatim>\<open>try\<close>, statement by statement.\<close>

definition try_build :: "scraper \<Rightarrow> bool \<Rightarrow> unit action" where
  "try_build sc fallback_used =
     and_then delete_all (\<lambda>_.
     and_then (call_result (title sc)) (\<lambda>t.
     and_then (call_result (yields sc)) (\<lambda>y.
     and_then (call_result (description sc)) (\<lambda>d.
     and_then (call_result (time_loop sc time_methods [])) (\<lambda>tms.
     and_then (insert_end (or_default t (lit ''Recipe (title not found)'') @ nl @ nl) (Some Title)) (\<lambda>_.
     and_then (insert_end (lit ''Servings: '' @ or_default y (lit ''N/A'') @ nl) (Some Heading)) (\<lambda>_.
     and_then (insert_end (time_str fallback_used tms @ nl) (Some Heading)) (\<lambda>_.
     and_then (insert_end (lit ''Notes: '' @ description_text d @ nl @ nl) (Some Heading)) (\<lambda>_.
     and_then (call_result (ingredients sc)) (\<lambda>ing_list.
     and_then
       (case ing_list of
          Some (item # rest) \<Rightarrow>
            and_then (insert_end (lit ''Ingredients:'' @ nl) (Some Heading)) (\<lambda>_.
            and_then (insert_items (item # rest)) (\<lambda>_.
            insert_end nl None))
        | _ \<Rightarrow> insert_end (lit ''Ingredients: (not found)'' @ nl @ nl) (Some Heading)) (\<lambda>_.
     and_then (call_result (instructions sc)) (\<lambda>instr_text.
       case instr_text of
         Some (c # cs) \<Rightarrow>
           and_then (insert_end (lit ''Instructions:'' @ nl) (Some Heading)) (\<lambda>_.
           and_then (insert_steps 1 (steps_of (c # cs))) (\<lambda>_.
           insert_end nl None))
       | _ \<Rightarrow>
           insert_end
             (lit ''Instructions: (not extracted '' @ [8211] @ lit '' see original site)'' @ nl)
             (Some Heading)))))))))))))"

text \<open>Lines 167 to 169: the handler of the outer \<^verbatim>\<open>try\<close>.\<close>

definition parse_issue :: "exn \<Rightarrow> segment" where
  "parse_issue e =
     (nl @ lit ''Unexpected parsing issue: '' @ message e @ nl @ lit ''Partial data shown above.'',
      Some Error)"

definition build_output :: "scraper \<Rightarrow> bool \<Rightarrow> segment list \<Rightarrow> segment list" where
  "build_output sc fallback_used w =
     (case try_build sc fallback_used w of
        (Inl e, w') \<Rightarrow> w' @ [parse_issue e]
      | (Inr _, w') \<Rightarrow> w')"

section \<open>summarize_recipe\<close>

text \<open>Lines 66 to 68.\<close>

definition with_scheme :: "ustr \<Rightarrow> ustr" where
  "with_scheme url =
     (if \<not> (startswith url (lit ''http://'') \<or> startswith url (lit ''https://''))
      then lit ''https://'' @ url else url)"

text \<open>Lines 90 to 95: the two handlers of the fallback \<^verbatim>\<open>try\<close>, in the order Python
  tests them.\<close>

definition fallback_error :: "exn \<Rightarrow> segment" where
  "fallback_error e =
     (if isinstance e RequestException
      then (lit ''Could not load page: '' @ message e @ nl @ lit ''Try another URL.'' @ nl, Some Error)
      else (lit ''Fallback failed: '' @ message e @ nl, Some Error))"

definition parsing_error :: "exn \<Rightarrow> segment" where
  "parsing_error e =
     (lit ''Parsing error: '' @ message e @ nl @ lit ''Try a different recipe site.'' @ nl, Some Error)"

definition fallback_note :: segment where
  "fallback_note =
     (lit ''Note: Using fallback schema.org parsing (may miss some details).'' @ nl @ nl, Some Note)"

definition show_error :: "segment \<Rightarrow> gui \<Rightarrow> gui" where
  "show_error seg g = g\<lparr>output_text := output_text g @ [seg]\<rparr>"

definition log_call :: "call \<Rightarrow> gui \<Rightarrow> gui" where
  "log_call c g = g\<lparr>calls := calls g @ [c]\<rparr>"

text \<open>Lines 84 to 95: the fallback, after \<^verbatim>\<open>WebsiteNotImplementedError\<close>. It ends either
  with an error shown or with a scraper and the note inserted.\<close>

definition fallback :: "env \<Rightarrow> ustr \<Rightarrow> gui \<Rightarrow> gui + scraper \<times> gui" where
  "fallback en url g =
     (let g1 = log_call (RequestsGet url) g in
      case requests_get en url of
        Inl e \<Rightarrow> Inl (show_error (fallback_error e) g1)
      | Inr resp \<Rightarrow>
          (case raise_for_status resp of
             Inl e \<Rightarrow> Inl (show_error (fallback_error e) g1)
           | Inr _ \<Rightarrow>
               (let g2 = log_call (ScrapeHtml (resp_text resp) url) g1 in
                case scrape_html en (resp_text resp) url of
                  Inl e \<Rightarrow> Inl (show_error (fallback_error e) g2)
                | Inr sc \<Rightarrow> Inr (sc, g2\<lparr>output_text := output_text g2 @ [fallback_note]\<rparr>))))"

text \<open>Lines 79 to 98: step 1. \<open>Inl\<close> is a \<^verbatim>\<open>return\<close> from the function; \<open>Inr\<close> carries the
  scraper, \<^verbatim>\<open>fallback_used\<close> and the state on to step 2.\<close>

definition step1 :: "env \<Rightarrow> ustr \<Rightarrow> gui \<Rightarrow> gui + (scraper \<times> bool) \<times> gui" where
  "step1 en url g =
     (let g1 = log_call (ScrapeMe url) g in
      case scrape_me en url of
        Inr sc \<Rightarrow> Inr ((sc, False), g1)
      | Inl e \<Rightarrow>
          if isinstance e WebsiteNotImplementedError then
            (case fallback en url g1 of
               Inl g' \<Rightarrow> Inl g'
             | Inr (sc, g') \<Rightarrow> Inr ((sc, True), g'))
          else Inl (show_error (parsing_error e) g1))"

text \<open>Line 72.\<close>

definition loading_message :: segment where
  "loading_message = (lit ''Fetching and summarizing recipe...'' @ nl @ nl, None)"

text \<open>Lines 61 to 169.\<close>

definition summarize_recipe :: "env \<Rightarrow> gui \<Rightarrow> gui" where
  "summarize_recipe en g =
     (let url = strip (url_entry g) in
      if url = [] then
        g\<lparr>warnings := warnings g @ [(lit ''Input Error'', lit ''Please enter a recipe URL.'')]\<rparr>
      else
        (let url' = with_scheme url;
             g1 = g\<lparr>output_text := [loading_message]\<rparr>
         in case step1 en url' g1 of
              Inl g' \<Rightarrow> g'
            | Inr ((sc, fallback_used), g') \<Rightarrow>
                g'\<lparr>output_text := build_output sc fallback_used (output_text g')\<rparr>))"

section \<open>save_and_open: the name of the file\<close>

text \<open>
  The class \<^verbatim>\<open>\w\<close> of \<^verbatim>\<open>re\<close> on a \<^verbatim>\<open>str\<close> pattern is the underscore and every code
  point that \<^verbatim>\<open>str.isalnum\<close> accepts, not ASCII alone. Up to U+00FF the alphanumeric code
  points are listed here; above, they are those of the interpreter's Unicode database,
  which the model takes as a list of ranges.
\<close>

definition isalnum_latin1 :: "nat \<Rightarrow> bool" where
  "isalnum_latin1 c \<longleftrightarrow>
     (48 \<le> c \<and> c \<le> 57) \<or> (65 \<le> c \<and> c \<le> 90) \<or> (97 \<le> c \<and> c \<le> 122) \<or>
     c = 170 \<or> c = 178 \<or> c = 179 \<or> c = 181 \<or> c = 185 \<or> c = 186 \<or> (188 \<le> c \<and> c \<le> 190) \<or>
     (192 \<le> c \<and> c \<le> 214) \<or> (216 \<le> c \<and> c \<le> 246) \<or> (248 \<le> c \<and> c \<le> 255)"

type_synonym ucd = "(nat \<times> nat) list"

definition in_ranges :: "ucd \<Rightarrow> nat \<Rightarrow> bool" where
  "in_ranges rs c = list_ex (\<lambda>(lo, hi). lo \<le> c \<and> c \<le> hi) rs"

definition isword :: "ucd \<Rightarrow> nat \<Rightarrow> bool" where
  "isword wide c \<longleftrightarrow> c = 95 \<or> (if c < 256 then isalnum_latin1 c else in_ranges wide c)"

text \<open>\<^verbatim>\<open>re.sub(r'\s+', '_', s)\<close>: every maximal run of whitespace becomes one underscore.\<close>

function sub_spaces :: "ustr \<Rightarrow> ustr" where
  "sub_spaces [] = []"
| "sub_spaces (c # cs) =
     (if isspace c then 95 # sub_spaces (dropWhile isspace cs) else c # sub_spaces cs)"
  by pat_completeness auto
termination
  by (relation "measure length") (auto simp: less_Suc_eq_le length_dropWhile_le)

text \<open>Lines 191 to 196.\<close>

definition clean_title :: "ucd \<Rightarrow> ustr \<Rightarrow> ustr" where
  "clean_title wide t =
     (let c1 = filter (\<lambda>c. isword wide c \<or> isspace c \<or> c = 45) t;
          c2 = sub_spaces c1;
          c3 = strip_class (\<lambda>c. c = 95) c2
      in if c3 = [] then lit ''edited_recipe'' else c3)"

text \<open>\<^verbatim>\<open>datetime.now().strftime("%Y-%m-%d_%H%M")\<close>: the year on four digits, the other
  fields on two, padded with zeros.\<close>

record datetime =
  year :: nat
  month :: nat
  day :: nat
  hour :: nat
  minute :: nat

definition zero_pad :: "nat \<Rightarrow> nat \<Rightarrow> ustr" where
  "zero_pad width n = replicate (width - length (digits_of n)) 48 @ digits_of n"

definition timestamp :: "datetime \<Rightarrow> ustr" where
  "timestamp now =
     zero_pad 4 (year now) @ lit ''-'' @ zero_pad 2 (month now) @ lit ''-'' @ zero_pad 2 (day now)
       @ lit ''_'' @ zero_pad 2 (hour now) @ zero_pad 2 (minute now)"

text \<open>Lines 187 and 188: the title is the first line that is not blank, stripped.\<close>

definition first_line :: "ustr \<Rightarrow> ustr" where
  "first_line txt =
     (case map strip (filter (\<lambda>l. strip l \<noteq> []) (splitlines txt)) of
        [] \<Rightarrow> lit ''Recipe''
      | l # _ \<Rightarrow> l)"

text \<open>Lines 186 to 204: the path the summary is written to, from the text of the widget,
  the files that exist and the clock.\<close>

definition file_path :: "ucd \<Rightarrow> (ustr \<Rightarrow> bool) \<Rightarrow> datetime \<Rightarrow> ustr \<Rightarrow> ustr" where
  "file_path wide path_exists now txt =
     (let ct = clean_title wide (first_line txt);
          base_name = ct @ lit ''.txt''
      in if path_exists base_name then ct @ lit ''_'' @ timestamp now @ lit ''.txt''
         else base_name)"

text \<open>Lines 178 to 204: \<^verbatim>\<open>save_and_open\<close> up to the choice of the path; \<open>None\<close> is the
  return after the warning that there is nothing to save.\<close>

definition save_path :: "ucd \<Rightarrow> (ustr \<Rightarrow> bool) \<Rightarrow> datetime \<Rightarrow> gui \<Rightarrow> ustr option" where
  "save_path wide path_exists now g =
     (let txt = strip (concat (map fst (output_text g)) @ nl)
      in if length txt < 100 \<or>
            (contains txt (lit ''Fetching and summarizing recipe...'') \<and> length (splitlines txt) < 5)
         then None
         else Some (file_path wide path_exists now txt))"

section \<open>The specification's own notions\<close>

text \<open>
  The specification speaks of a URL that has a scheme. A URL has one when it begins with
  a scheme name, a letter followed by letters, digits, \<^verbatim>\<open>+\<close>, \<^verbatim>\<open>-\<close> or \<^verbatim>\<open>.\<close>, and then
  \<^verbatim>\<open>://\<close>.
\<close>

definition ascii_letter :: "nat \<Rightarrow> bool" where
  "ascii_letter c \<longleftrightarrow> (65 \<le> c \<and> c \<le> 90) \<or> (97 \<le> c \<and> c \<le> 122)"

definition ascii_digit :: "nat \<Rightarrow> bool" where
  "ascii_digit c \<longleftrightarrow> 48 \<le> c \<and> c \<le> 57"

definition spec_has_scheme :: "ustr \<Rightarrow> bool" where
  "spec_has_scheme url \<longleftrightarrow>
     (let name = takeWhile (\<lambda>c. c \<noteq> 58) url
      in name \<noteq> [] \<and> ascii_letter (hd name) \<and>
         list_all (\<lambda>c. ascii_letter c \<or> ascii_digit c \<or> c = 43 \<or> c = 45 \<or> c = 46) name \<and>
         startswith (drop (length name) url) (lit ''://''))"

text \<open>
  The specification's sanitize: remove every character outside \<^verbatim>\<open>[A-Za-z0-9_\s-]\<close>,
  collapse whitespace runs to single underscores, trim leading and trailing underscores,
  substitute \<^verbatim>\<open>edited_recipe\<close> if the result is empty.
\<close>

definition spec_allowed :: "nat \<Rightarrow> bool" where
  "spec_allowed c \<longleftrightarrow> ascii_letter c \<or> ascii_digit c \<or> c = 95 \<or> isspace c \<or> c = 45"

fun spec_collapse :: "ustr \<Rightarrow> ustr" where
  "spec_collapse [] = []"
| "spec_collapse [c] = [if isspace c then 95 else c]"
| "spec_collapse (c # d # cs) =
     (if isspace c \<and> isspace d then spec_collapse (d # cs)
      else (if isspace c then 95 else c) # spec_collapse (d # cs))"

definition spec_sanitize_class :: "(nat \<Rightarrow> bool) \<Rightarrow> ustr \<Rightarrow> ustr" where
  "spec_sanitize_class allowed t =
     (let s = strip_class (\<lambda>c. c = 95) (spec_collapse (filter allowed t))
      in if s = [] then lit ''edited_recipe'' else s)"

definition spec_sanitize :: "ustr \<Rightarrow> ustr" where
  "spec_sanitize t = spec_sanitize_class spec_allowed t"

text \<open>A segment that the composition itself inserts: neither the fallback note nor an
  error.\<close>

definition composed :: "segment \<Rightarrow> bool" where
  "composed s \<longleftrightarrow> snd s \<noteq> Some Error \<and> snd s \<noteq> Some Note"


section \<open>Sample inputs\<close>

text \<open>A scraper that found only the title, as the generic adapter of the end-to-end
  scenario does.\<close>

definition pie_scraper :: scraper where
  "pie_scraper =
     \<lparr>title = Inr (Some (lit ''Test Pie'')), yields = Inr None, description = Inr None,
      ingredients = Inr None, instructions = Inr None, attrs = Map.empty\<rparr>"

definition page :: response where
  "page = \<lparr>raise_for_status = Inr (), resp_text = lit ''<html>Test Pie</html>''\<rparr>"

definition not_implemented :: exn where
  "not_implemented = Exn [WebsiteNotImplementedError] (lit ''Website is not supported'')"

text \<open>The end-to-end scenario: no native adapter, the page loads, the generic adapter
  parses it.\<close>

definition pie_env :: env where
  "pie_env =
     \<lparr>scrape_me = (\<lambda>u. Inl not_implemented),
      requests_get = (\<lambda>u. Inr page),
      scrape_html = (\<lambda>h u. Inr pie_scraper)\<rparr>"

text \<open>The native adapter fails on its own; the page does not load; the page loads and the
  generic adapter fails.\<close>

definition broken_env :: env where
  "broken_env = pie_env\<lparr>scrape_me := (\<lambda>u. Inl (Exn [] (lit ''no recipe schema'')))\<rparr>"

definition offline_env :: env where
  "offline_env =
     pie_env\<lparr>requests_get := (\<lambda>u. Inl (Exn [RequestException] (lit ''connection refused'')))\<rparr>"

definition unparsable_env :: env where
  "unparsable_env = pie_env\<lparr>scrape_html := (\<lambda>h u. Inl (Exn [] (lit ''no recipe found'')))\<rparr>"

definition pie_gui :: gui where
  "pie_gui =
     \<lparr>url_entry = lit ''example.com/pie'', output_text = [(lit ''Old summary'', Some Title)],
      warnings = [], calls = []\<rparr>"

definition blank_gui :: gui where
  "blank_gui = pie_gui\<lparr>url_entry := [32, 9, 32]\<rparr>"

text \<open>A scraper with the time accessors under the names of the specification and of
  \<^verbatim>\<open>recipe_scrapers\<close>, and one with them under the names the program probes.\<close>

definition timed_scraper :: scraper where
  "timed_scraper =
     pie_scraper\<lparr>attrs :=
       [''total_time'' \<mapsto> Inr (TInt 45), ''prep_time'' \<mapsto> Inr TNone,
        ''cook_time'' \<mapsto> Inr (TStr (lit ''varies''))]\<rparr>"

definition probed_scraper :: scraper where
  "probed_scraper =
     pie_scraper\<lparr>attrs :=
       [''total_time'' \<mapsto> Inr (TInt 45), ''preptime'' \<mapsto> Inr TNone,
        ''cooktime'' \<mapsto> Inr (TStr (lit ''varies''))]\<rparr>"


definition no_ingredients_scraper :: scraper where
  "no_ingredients_scraper = pie_scraper\<lparr>ingredients := Inl (Exn [] (lit ''no ingredients''))\<rparr>"



definition blank_scraper :: scraper where
  "blank_scraper =
     \<lparr>title = Inr None, yields = Inr None, description = Inr None, ingredients = Inr None,
      instructions = Inr None, attrs = [''total_time'' \<mapsto> Inr TNone]\<rparr>"

definition existing :: "ustr \<Rightarrow> bool" where
  "existing p \<longleftrightarrow> p = lit ''Moms_Apple_Pie.txt''"

definition greek :: ucd where
  "greek = [(910, 929), (931, 1013)]"

definition clock :: datetime where
  "clock = \<lparr>year = 2026, month = 11, day = 3, hour = 9, minute = 7\<rparr>"

section \<open>Strings\<close>

lemma strip_class_Nil_iff: "strip_class P s = [] \<longleftrightarrow> list_all P s"
proof (cases "dropWhile P s = []")
  case True
  then have "list_all P s"
    by (simp add: list_all_iff)
  then show ?thesis
    unfolding strip_class_def True by simp
next
  case False
  then have "\<not> P (hd (dropWhile P s))"
    by (rule hd_dropWhile)
  moreover have "hd (dropWhile P s) \<in> set (dropWhile P s)"
    using False by simp
  ultimately have "\<not> (\<forall>x\<in>set (dropWhile P s). P x)"
    by blast
  moreover have "\<not> list_all P s"
    using False by (simp add: list_all_iff dropWhile_eq_Nil_conv)
  ultimately show ?thesis
    by (simp add: strip_class_def dropWhile_eq_Nil_conv)
qed

lemma strip_Nil_iff: "strip s = [] \<longleftrightarrow> list_all isspace s"
  by (simp add: strip_def strip_class_Nil_iff)

lemma startswith_append: "startswith s p \<Longrightarrow> \<exists>r. s = p @ r"
  unfolding startswith_def by (metis append_take_drop_id)

lemma web_scheme_is_scheme:
  assumes "startswith u (lit ''http://'') \<or> startswith u (lit ''https://'')"
  shows "spec_has_scheme u"
proof -
  from assms obtain r where "u = lit ''http://'' @ r \<or> u = lit ''https://'' @ r"
    using startswith_append by blast
  then show ?thesis
    by (auto simp add: spec_has_scheme_def startswith_def lit_def Let_def
        ascii_letter_def ascii_digit_def)
qed

section \<open>The URL\<close>

lemma step1_first_call:
  "\<exists>rest. (case step1 en u g of Inl g' \<Rightarrow> calls g' | Inr (x, g') \<Rightarrow> calls g')
            = calls g @ ScrapeMe u # rest"
  by (auto simp add: step1_def fallback_def log_call_def show_error_def Let_def
      split: sum.splits prod.splits)

lemma summarize_first_call:
  assumes "strip (url_entry g) \<noteq> []"
  shows "\<exists>rest. calls (summarize_recipe en g)
           = calls g @ ScrapeMe (with_scheme (strip (url_entry g))) # rest"
  using assms
    step1_first_call [of en "with_scheme (strip (url_entry g))" "g\<lparr>output_text := [loading_message]\<rparr>"]
  by (auto simp add: summarize_recipe_def Let_def split: sum.splits prod.splits)

text \<open>
  C10. When the entry field is empty or holds only whitespace, summarize_recipe shows the
  warning and returns: the text widget is as it was and no library call, so no network
  request, is made.
\<close>

theorem blank_url_only_warns:
  assumes "list_all isspace (url_entry g)"
  shows "summarize_recipe en g =
           g\<lparr>warnings := warnings g @ [(lit ''Input Error'', lit ''Please enter a recipe URL.'')]\<rparr>
         \<and> output_text (summarize_recipe en g) = output_text g
         \<and> calls (summarize_recipe en g) = calls g"
  using assms by (simp add: summarize_recipe_def strip_Nil_iff)

theorem blank_url_only_warns_witness:
  "list_all isspace (url_entry blank_gui)
   \<and> output_text (summarize_recipe pie_env blank_gui) = [(lit ''Old summary'', Some Title)]
   \<and> calls (summarize_recipe pie_env blank_gui) = []
   \<and> warnings (summarize_recipe pie_env blank_gui)
       = [(lit ''Input Error'', lit ''Please enter a recipe URL.'')]"
proof -
  have blank: "list_all isspace (url_entry blank_gui)"
    by (simp add: blank_gui_def pie_gui_def isspace_def)
  show ?thesis
    using blank blank_url_only_warns [OF blank, of pie_env]
    by (simp add: blank_gui_def pie_gui_def)
qed

text \<open>
  C8, as the claim states it, fails: an input that carries the scheme \<^verbatim>\<open>ftp\<close> is not
  passed through unchanged, it is prefixed as well.
\<close>

theorem other_scheme_prefixed_counterexample:
  "spec_has_scheme (lit ''ftp://example.com/pie'')
   \<and> with_scheme (lit ''ftp://example.com/pie'') = lit ''https://ftp://example.com/pie''"
  by (simp add: spec_has_scheme_def with_scheme_def startswith_def lit_def
      ascii_letter_def ascii_digit_def)

text \<open>
  C8, amended. The URL given to the extractor is the entry stripped of surrounding
  whitespace, passed through \<open>with_scheme\<close>: unchanged exactly when it starts with
  \<^verbatim>\<open>http://\<close> or \<^verbatim>\<open>https://\<close> (in lower case), and otherwise prefixed with
  \<^verbatim>\<open>https://\<close>, never with anything else. In particular every URL without a scheme is
  prefixed with \<^verbatim>\<open>https://\<close>.
\<close>

theorem url_prefix_rule:
  assumes "strip (url_entry g) \<noteq> []"
  shows "(\<exists>rest. calls (summarize_recipe en g)
            = calls g @ ScrapeMe (with_scheme (strip (url_entry g))) # rest)
         \<and> (with_scheme u = u \<longleftrightarrow> startswith u (lit ''http://'') \<or> startswith u (lit ''https://''))
         \<and> (with_scheme u = u \<or> with_scheme u = lit ''https://'' @ u)
         \<and> (\<not> spec_has_scheme u \<longrightarrow> with_scheme u = lit ''https://'' @ u)"
proof -
  have "\<not> spec_has_scheme u \<longrightarrow> with_scheme u = lit ''https://'' @ u"
    using web_scheme_is_scheme [of u] by (auto simp add: with_scheme_def)
  moreover have "with_scheme u = u \<longleftrightarrow> startswith u (lit ''http://'') \<or> startswith u (lit ''https://'')"
    by (simp add: with_scheme_def lit_def)
  moreover have "with_scheme u = u \<or> with_scheme u = lit ''https://'' @ u"
    by (simp add: with_scheme_def)
  ultimately show ?thesis
    using summarize_first_call [OF assms, of en] by blast
qed

theorem url_prefix_rule_witness:
  "strip (url_entry pie_gui) \<noteq> []
   \<and> \<not> spec_has_scheme (lit ''example.com/pie'')
   \<and> with_scheme (lit ''example.com/pie'') = lit ''https://example.com/pie''
   \<and> hd (calls (summarize_recipe pie_env pie_gui)) = ScrapeMe (lit ''https://example.com/pie'')"
proof -
  have entry: "strip (url_entry pie_gui) = lit ''example.com/pie''"
    by (simp add: pie_gui_def strip_def strip_class_def isspace_def lit_def)
  then have filled: "strip (url_entry pie_gui) \<noteq> []"
    by (simp add: lit_def)
  have bare: "\<not> spec_has_scheme (lit ''example.com/pie'')"
    by (simp add: spec_has_scheme_def startswith_def lit_def)
  note rule = url_prefix_rule [OF filled, of pie_env "lit ''example.com/pie''"]
  from rule bare
  have prefixed: "with_scheme (lit ''example.com/pie'') = lit ''https://'' @ lit ''example.com/pie''"
    by blast
  have none: "calls pie_gui = []"
    by (simp add: pie_gui_def)
  from rule obtain rest where
    "calls (summarize_recipe pie_env pie_gui)
       = calls pie_gui @ ScrapeMe (with_scheme (strip (url_entry pie_gui))) # rest"
    by blast
  then have "hd (calls (summarize_recipe pie_env pie_gui))
               = ScrapeMe (lit ''https://'' @ lit ''example.com/pie'')"
    by (simp add: entry none prefixed)
  then show ?thesis
    using filled bare prefixed by (simp add: lit_def)
qed

section \<open>The description\<close>

text \<open>
  C6, as the claim states it, fails at the empty description: it has at most 600
  characters and is not left unchanged, the default text takes its place.
\<close>

theorem empty_description_counterexample:
  "length ([] :: ustr) \<le> 600 \<and> description_text (Some []) \<noteq> []"
  by (simp add: description_text_def or_default_def lit_def)

text \<open>
  C6, amended. A description of more than 600 characters becomes its first 597
  characters followed by three dots, 600 characters in all; a description of 1 to 600
  characters is left unchanged; the empty description is replaced by the default text.
\<close>

theorem description_truncation:
  "(600 < length d \<longrightarrow>
       description_text (Some d) = take 597 d @ lit ''...''
       \<and> length (description_text (Some d)) = 600
       \<and> drop 597 (description_text (Some d)) = lit ''...'')
   \<and> (d \<noteq> [] \<and> length d \<le> 600 \<longrightarrow> description_text (Some d) = d)
   \<and> description_text (Some []) = lit ''No description available.''"
  by (auto simp add: description_text_def or_default_def Let_def lit_def)

theorem description_truncation_witness:
  "600 < length (replicate 650 (120 :: nat))
   \<and> length (description_text (Some (replicate 650 120))) = 600
   \<and> drop 597 (description_text (Some (replicate 650 120))) = lit ''...''
   \<and> lit ''Flaky.'' \<noteq> [] \<and> length (lit ''Flaky.'') \<le> 600
   \<and> description_text (Some (lit ''Flaky.'')) = lit ''Flaky.''"
  using description_truncation [of "replicate 650 120"] description_truncation [of "lit ''Flaky.''"]
  by (simp add: lit_def)

section \<open>Building the output\<close>

lemmas run_defs = and_then_def delete_all_def call_result_def insert_end_def

lemma insert_items_run:
  "insert_items items w =
     (Inr (), w @ map (\<lambda>item. ([8226, 32] @ strip item @ nl, Some Body)) items)"
  by (induction items arbitrary: w) (simp_all add: run_defs)

lemma insert_steps_run:
  "insert_steps i steps w =
     (Inr (), w @ map (\<lambda>(k, step). (str_int (int k) @ lit ''. '' @ step @ nl, Some Body))
                    (zip [i..<i + length steps] steps))"
proof (induction steps arbitrary: i w)
  case Nil
  show ?case by (simp add: run_defs)
next
  case (Cons step rest)
  have "[i..<i + length (step # rest)] = i # [Suc i..<Suc i + length rest]"
    by (subst upt_rec) simp
  then show ?case
    by (simp add: run_defs Cons.IH)
qed

text \<open>Whatever the block leaves in the widget was inserted by the block: it starts by
  emptying the widget, and it inserts neither a note nor an error.\<close>

lemma try_build_composed: "list_all composed (snd (try_build sc fb w))"
  by (auto simp add: try_build_def run_defs insert_items_run insert_steps_run composed_def
      list_all_iff split: sum.splits option.splits list.splits prod.splits)

lemma try_build_from_empty: "try_build sc fb w = try_build sc fb []"
  by (simp add: try_build_def run_defs)


text \<open>The four segments of the overview, and the segments of the ingredients.\<close>

lemma ingredients_raise:
  assumes "title sc = Inr t" "yields sc = Inr y" "description sc = Inr d"
    and "time_loop sc time_methods [] = Inr tms" and "ingredients sc = Inl e"
  shows "build_output sc fb w =
     [(or_default t (lit ''Recipe (title not found)'') @ nl @ nl, Some Title),
      (lit ''Servings: '' @ or_default y (lit ''N/A'') @ nl, Some Heading),
      (time_str fb tms @ nl, Some Heading),
      (lit ''Notes: '' @ description_text d @ nl @ nl, Some Heading),
      parse_issue e]"
  using assms by (simp add: build_output_def try_build_def run_defs)

lemma instructions_raise:
  assumes "title sc = Inr t" "yields sc = Inr y" "description sc = Inr d"
    and "time_loop sc time_methods [] = Inr tms" and "ingredients sc = Inr (Some (item # rest))"
    and "instructions sc = Inl e"
  shows "build_output sc fb w =
     [(or_default t (lit ''Recipe (title not found)'') @ nl @ nl, Some Title),
      (lit ''Servings: '' @ or_default y (lit ''N/A'') @ nl, Some Heading),
      (time_str fb tms @ nl, Some Heading),
      (lit ''Notes: '' @ description_text d @ nl @ nl, Some Heading),
      (lit ''Ingredients:'' @ nl, Some Heading)]
     @ map (\<lambda>i. ([8226, 32] @ strip i @ nl, Some Body)) (item # rest)
     @ [(nl, None), parse_issue e]"
  using assms by (simp add: build_output_def try_build_def run_defs insert_items_run)



lemma instructions_raise_unlisted:
  assumes "title sc = Inr t" "yields sc = Inr y" "description sc = Inr d"
    and "time_loop sc time_methods [] = Inr tms"
    and "ingredients sc = Inr None \<or> ingredients sc = Inr (Some [])"
    and "instructions sc = Inl e"
  shows "build_output sc fb w =
     [(or_default t (lit ''Recipe (title not found)'') @ nl @ nl, Some Title),
      (lit ''Servings: '' @ or_default y (lit ''N/A'') @ nl, Some Heading),
      (time_str fb tms @ nl, Some Heading),
      (lit ''Notes: '' @ description_text d @ nl @ nl, Some Heading),
      (lit ''Ingredients: (not found)'' @ nl @ nl, Some Heading),
      parse_issue e]"
  using assms by (auto simp add: build_output_def try_build_def run_defs)

text \<open>
  C9. When a statement of the composing block raises, the widget keeps what the block had
  inserted up to that point, and the handler appends one segment tagged as an error after
  it: the output is those segments, none of them an error, and then the error segment.
  So when \<^verbatim>\<open>ingredients()\<close> raises, the four segments of the overview stay; when
  \<^verbatim>\<open>instructions()\<close> raises, the overview and the ingredients stay.
\<close>

theorem partial_output_kept:
  "(try_build sc fb w = (Inl e, w') \<longrightarrow>
      build_output sc fb w = w' @ [parse_issue e]
      \<and> list_all composed w' \<and> snd (parse_issue e) = Some Error)
   \<and> (title sc = Inr t \<and> yields sc = Inr y \<and> description sc = Inr d
        \<and> time_loop sc time_methods [] = Inr tms \<and> ingredients sc = Inl e \<longrightarrow>
      build_output sc fb w =
        [(or_default t (lit ''Recipe (title not found)'') @ nl @ nl, Some Title),
         (lit ''Servings: '' @ or_default y (lit ''N/A'') @ nl, Some Heading),
         (time_str fb tms @ nl, Some Heading),
         (lit ''Notes: '' @ description_text d @ nl @ nl, Some Heading),
         parse_issue e])
   \<and> (title sc = Inr t \<and> yields sc = Inr y \<and> description sc = Inr d
        \<and> time_loop sc time_methods [] = Inr tms
        \<and> ingredients sc = Inr (Some (item # rest)) \<and> instructions sc = Inl e \<longrightarrow>
      build_output sc fb w =
        [(or_default t (lit ''Recipe (title not found)'') @ nl @ nl, Some Title),
         (lit ''Servings: '' @ or_default y (lit ''N/A'') @ nl, Some Heading),
         (time_str fb tms @ nl, Some Heading),
         (lit ''Notes: '' @ description_text d @ nl @ nl, Some Heading),
         (lit ''Ingredients:'' @ nl, Some Heading)]
        @ map (\<lambda>i. ([8226, 32] @ strip i @ nl, Some Body)) (item # rest)
        @ [(nl, None), parse_issue e])
   \<and> (title sc = Inr t \<and> yields sc = Inr y \<and> description sc = Inr d
        \<and> time_loop sc time_methods [] = Inr tms
        \<and> (ingredients sc = Inr None \<or> ingredients sc = Inr (Some []))
        \<and> instructions sc = Inl e \<longrightarrow>
      build_output sc fb w =
        [(or_default t (lit ''Recipe (title not found)'') @ nl @ nl, Some Title),
         (lit ''Servings: '' @ or_default y (lit ''N/A'') @ nl, Some Heading),
         (time_str fb tms @ nl, Some Heading),
         (lit ''Notes: '' @ description_text d @ nl @ nl, Some Heading),
         (lit ''Ingredients: (not found)'' @ nl @ nl, Some Heading),
         parse_issue e])"
proof -
  have kept: "try_build sc fb w = (Inl e, w') \<longrightarrow>
      build_output sc fb w = w' @ [parse_issue e]
      \<and> list_all composed w' \<and> snd (parse_issue e) = Some Error"
  proof
    assume run: "try_build sc fb w = (Inl e, w')"
    have "list_all composed (snd (try_build sc fb w))"
      by (rule try_build_composed)
    then show "build_output sc fb w = w' @ [parse_issue e]
      \<and> list_all composed w' \<and> snd (parse_issue e) = Some Error"
      using run by (simp add: build_output_def parse_issue_def)
  qed
  show ?thesis
    using kept ingredients_raise [of sc t y d tms e fb w]
      instructions_raise [of sc t y d tms item rest e fb w]
      instructions_raise_unlisted [of sc t y d tms e fb w]
    by blast
qed

theorem partial_output_kept_witness:
  "try_build no_ingredients_scraper False [] =
     (Inl (Exn [] (lit ''no ingredients'')),
      [(lit ''Test Pie'' @ nl @ nl, Some Title),
       (lit ''Servings: N/A'' @ nl, Some Heading),
       (lit ''Times not available'' @ nl, Some Heading),
       (lit ''Notes: No description available.'' @ nl @ nl, Some Heading)])
   \<and> build_output no_ingredients_scraper False [] =
       [(lit ''Test Pie'' @ nl @ nl, Some Title),
        (lit ''Servings: N/A'' @ nl, Some Heading),
        (lit ''Times not available'' @ nl, Some Heading),
        (lit ''Notes: No description available.'' @ nl @ nl, Some Heading),
        parse_issue (Exn [] (lit ''no ingredients''))]"
proof -
  have run: "try_build no_ingredients_scraper False [] =
     (Inl (Exn [] (lit ''no ingredients'')),
      [(lit ''Test Pie'' @ nl @ nl, Some Title),
       (lit ''Servings: N/A'' @ nl, Some Heading),
       (lit ''Times not available'' @ nl, Some Heading),
       (lit ''Notes: No description available.'' @ nl @ nl, Some Heading)])"
    by (simp add: try_build_def run_defs no_ingredients_scraper_def pie_scraper_def
        or_default_def description_text_def time_str_def time_methods_def lit_def)
  show ?thesis
    using run
      partial_output_kept [of no_ingredients_scraper False "[]" "Exn [] (lit ''no ingredients'')"]
    by simp
qed









text \<open>
  C5. When every accessor returns \<^verbatim>\<open>None\<close> (a time accessor may also be missing), the
  block runs to its end without raising and the output is the six default lines: the
  title, the servings, the time line, the description, the ingredients marker and the
  instructions marker. The time line is the placeholder \<^verbatim>\<open>Times not available\<close>; after a
  fallback the hint \<^verbatim>\<open>(check original page)\<close> follows it on the same line.
\<close>

theorem defaults_when_nothing_returned:
  assumes "title sc = Inr None" and "yields sc = Inr None" and "description sc = Inr None"
    and "ingredients sc = Inr None" and "instructions sc = Inr None"
    and "list_all (\<lambda>m. attrs sc m = None \<or> attrs sc m = Some (Inr TNone)) (map fst time_methods)"
  shows "fst (try_build sc fb w) = Inr ()
         \<and> build_output sc fb w =
             [(lit ''Recipe (title not found)'' @ nl @ nl, Some Title),
              (lit ''Servings: N/A'' @ nl, Some Heading),
              (lit ''Times not available'' @ (if fb then lit '' (check original page)'' else [])
                 @ nl, Some Heading),
              (lit ''Notes: No description available.'' @ nl @ nl, Some Heading),
              (lit ''Ingredients: (not found)'' @ nl @ nl, Some Heading),
              (lit ''Instructions: (not extracted '' @ [8211] @ lit '' see original site)'' @ nl,
               Some Heading)]"
proof -
  have no_times: "time_loop sc time_methods [] = Inr []"
    using assms(6) by (auto simp add: time_methods_def time_try_def)
  have short: "description_text None = lit ''No description available.''"
    by (simp add: description_text_def or_default_def lit_def)
  show ?thesis
    using assms(1-5)
    by (simp add: build_output_def try_build_def run_defs no_times short or_default_def
        time_str_def lit_def)
qed

theorem defaults_when_nothing_returned_witness:
  "title blank_scraper = Inr None \<and> yields blank_scraper = Inr None
   \<and> description blank_scraper = Inr None \<and> ingredients blank_scraper = Inr None
   \<and> instructions blank_scraper = Inr None
   \<and> list_all (\<lambda>m. attrs blank_scraper m = None \<or> attrs blank_scraper m = Some (Inr TNone))
        (map fst time_methods)
   \<and> fst (try_build blank_scraper False []) = Inr ()
   \<and> map fst (build_output blank_scraper False []) =
       [lit ''Recipe (title not found)'' @ nl @ nl,
        lit ''Servings: N/A'' @ nl,
        lit ''Times not available'' @ nl,
        lit ''Notes: No description available.'' @ nl @ nl,
        lit ''Ingredients: (not found)'' @ nl @ nl,
        lit ''Instructions: (not extracted '' @ [8211] @ lit '' see original site)'' @ nl]"
proof -
  have fields: "title blank_scraper = Inr None" "yields blank_scraper = Inr None"
    "description blank_scraper = Inr None" "ingredients blank_scraper = Inr None"
    "instructions blank_scraper = Inr None"
    by (simp_all add: blank_scraper_def)
  have times: "list_all (\<lambda>m. attrs blank_scraper m = None \<or> attrs blank_scraper m = Some (Inr TNone))
        (map fst time_methods)"
    by (simp add: blank_scraper_def time_methods_def)
  show ?thesis
    using fields times defaults_when_nothing_returned [OF fields times, of False "[]"]
    by simp
qed

section \<open>The error outcomes of step 1\<close>

text \<open>
  C4. With a filled entry field and \<open>u\<close> the URL given to the extractor: when the native
  adapter raises anything but \<^verbatim>\<open>WebsiteNotImplementedError\<close>, the output is the loading
  line and the \<^verbatim>\<open>Parsing error\<close> message, and the only library call made is the native
  one, so nothing is fetched. After \<^verbatim>\<open>WebsiteNotImplementedError\<close>, a
  \<^verbatim>\<open>RequestException\<close> from the request or from its status check gives
  \<^verbatim>\<open>Could not load page\<close>, and an exception of the generic adapter that is no
  \<^verbatim>\<open>RequestException\<close> gives \<^verbatim>\<open>Fallback failed\<close>. The three messages are pairwise
  different whatever the exceptions say.
\<close>

theorem error_outcomes:
  assumes "strip (url_entry g) \<noteq> []" and "u = with_scheme (strip (url_entry g))"
    and "scrape_me en u = Inl e"
  shows "(\<not> isinstance e WebsiteNotImplementedError \<longrightarrow>
            summarize_recipe en g =
              g\<lparr>output_text :=
                  [loading_message,
                   (lit ''Parsing error: '' @ message e @ nl @ lit ''Try a different recipe site.'' @ nl,
                    Some Error)],
                calls := calls g @ [ScrapeMe u]\<rparr>)
         \<and> (isinstance e WebsiteNotImplementedError \<and> isinstance e' RequestException
              \<and> (requests_get en u = Inl e'
                  \<or> requests_get en u = Inr r \<and> raise_for_status r = Inl e') \<longrightarrow>
            summarize_recipe en g =
              g\<lparr>output_text :=
                  [loading_message,
                   (lit ''Could not load page: '' @ message e' @ nl @ lit ''Try another URL.'' @ nl,
                    Some Error)],
                calls := calls g @ [ScrapeMe u, RequestsGet u]\<rparr>)
         \<and> (isinstance e WebsiteNotImplementedError \<and> \<not> isinstance e' RequestException
              \<and> requests_get en u = Inr r \<and> raise_for_status r = Inr ()
              \<and> scrape_html en (resp_text r) u = Inl e' \<longrightarrow>
            summarize_recipe en g =
              g\<lparr>output_text :=
                  [loading_message, (lit ''Fallback failed: '' @ message e' @ nl, Some Error)],
                calls := calls g @ [ScrapeMe u, RequestsGet u, ScrapeHtml (resp_text r) u]\<rparr>)
         \<and> distinct [lit ''Parsing error: '' @ a, lit ''Could not load page: '' @ b,
                      lit ''Fallback failed: '' @ c]"
proof -
  have native: "\<not> isinstance e WebsiteNotImplementedError \<longrightarrow>
            summarize_recipe en g =
              g\<lparr>output_text :=
                  [loading_message,
                   (lit ''Parsing error: '' @ message e @ nl @ lit ''Try a different recipe site.'' @ nl,
                    Some Error)],
                calls := calls g @ [ScrapeMe u]\<rparr>"
    using assms
    by (simp add: summarize_recipe_def step1_def log_call_def show_error_def parsing_error_def
        Let_def)
  have transport: "isinstance e WebsiteNotImplementedError \<and> isinstance e' RequestException
              \<and> (requests_get en u = Inl e'
                  \<or> requests_get en u = Inr r \<and> raise_for_status r = Inl e') \<longrightarrow>
            summarize_recipe en g =
              g\<lparr>output_text :=
                  [loading_message,
                   (lit ''Could not load page: '' @ message e' @ nl @ lit ''Try another URL.'' @ nl,
                    Some Error)],
                calls := calls g @ [ScrapeMe u, RequestsGet u]\<rparr>"
    using assms
    by (auto simp add: summarize_recipe_def step1_def fallback_def log_call_def show_error_def
        fallback_error_def Let_def)
  have parse: "isinstance e WebsiteNotImplementedError \<and> \<not> isinstance e' RequestException
              \<and> requests_get en u = Inr r \<and> raise_for_status r = Inr ()
              \<and> scrape_html en (resp_text r) u = Inl e' \<longrightarrow>
            summarize_recipe en g =
              g\<lparr>output_text :=
                  [loading_message, (lit ''Fallback failed: '' @ message e' @ nl, Some Error)],
                calls := calls g @ [ScrapeMe u, RequestsGet u, ScrapeHtml (resp_text r) u]\<rparr>"
    using assms
    by (simp add: summarize_recipe_def step1_def fallback_def log_call_def show_error_def
        fallback_error_def Let_def)
  have apart: "distinct [lit ''Parsing error: '' @ a, lit ''Could not load page: '' @ b,
                      lit ''Fallback failed: '' @ c]"
    by (simp add: lit_def)
  from native transport parse apart show ?thesis
    by blast
qed

theorem error_outcomes_witness:
  "strip (url_entry pie_gui) \<noteq> []
   \<and> output_text (summarize_recipe broken_env pie_gui) =
       [loading_message,
        (lit ''Parsing error: no recipe schema'' @ nl @ lit ''Try a different recipe site.'' @ nl,
         Some Error)]
   \<and> calls (summarize_recipe broken_env pie_gui) = [ScrapeMe (lit ''https://example.com/pie'')]
   \<and> output_text (summarize_recipe offline_env pie_gui) =
       [loading_message,
        (lit ''Could not load page: connection refused'' @ nl @ lit ''Try another URL.'' @ nl,
         Some Error)]
   \<and> output_text (summarize_recipe unparsable_env pie_gui) =
       [loading_message, (lit ''Fallback failed: no recipe found'' @ nl, Some Error)]"
proof -
  have entry: "strip (url_entry pie_gui) = lit ''example.com/pie''"
    by (simp add: pie_gui_def strip_def strip_class_def isspace_def lit_def)
  have filled: "strip (url_entry pie_gui) \<noteq> []"
    by (simp add: entry lit_def)
  have url: "lit ''https://example.com/pie'' = with_scheme (strip (url_entry pie_gui))"
    by (simp add: entry with_scheme_def startswith_def lit_def)
  have broken: "scrape_me broken_env (lit ''https://example.com/pie'')
                  = Inl (Exn [] (lit ''no recipe schema''))"
    by (simp add: broken_env_def pie_env_def)
  have offline: "scrape_me offline_env (lit ''https://example.com/pie'') = Inl not_implemented"
    "requests_get offline_env (lit ''https://example.com/pie'')
       = Inl (Exn [RequestException] (lit ''connection refused''))"
    by (simp_all add: offline_env_def pie_env_def)
  have unparsable: "scrape_me unparsable_env (lit ''https://example.com/pie'') = Inl not_implemented"
    "requests_get unparsable_env (lit ''https://example.com/pie'') = Inr page"
    "raise_for_status page = Inr ()"
    "scrape_html unparsable_env (resp_text page) (lit ''https://example.com/pie'')
       = Inl (Exn [] (lit ''no recipe found''))"
    by (simp_all add: unparsable_env_def pie_env_def page_def)
  have classes: "\<not> isinstance (Exn [] (lit ''no recipe schema'')) WebsiteNotImplementedError"
    "isinstance not_implemented WebsiteNotImplementedError"
    "isinstance (Exn [RequestException] (lit ''connection refused'')) RequestException"
    "\<not> isinstance (Exn [] (lit ''no recipe found'')) RequestException"
    by (simp_all add: isinstance_def not_implemented_def)
  have none: "calls pie_gui = []"
    by (simp add: pie_gui_def)
  show ?thesis
    using filled classes broken offline unparsable
      error_outcomes [OF filled url broken, of _ _ "[]" "[]" "[]"]
      error_outcomes [OF filled url offline(1),
        of "Exn [RequestException] (lit ''connection refused'')" _ "[]" "[]" "[]"]
      error_outcomes [OF filled url unparsable(1), of "Exn [] (lit ''no recipe found'')" page
        "[]" "[]" "[]"]
    by (simp add: none lit_def)
qed

section \<open>The fallback note\<close>

lemma build_output_no_note: "list_all (\<lambda>s. snd s \<noteq> Some Note) (build_output sc fb w)"
proof (cases "try_build sc fb w")
  case (Pair r w')
  with try_build_composed [of sc fb w] have "list_all composed w'"
    by simp
  then show ?thesis
    using Pair
    by (cases r) (auto simp add: build_output_def parse_issue_def composed_def list_all_iff)
qed

text \<open>Whatever the site and the page, no segment of the final output is the note: the
  note is inserted at line 89 and the widget is emptied at line 104, and the error paths
  return before line 89.\<close>

lemma note_never_shown:
  assumes "strip (url_entry g) \<noteq> []"
  shows "list_all (\<lambda>s. snd s \<noteq> Some Note) (output_text (summarize_recipe en g))"
  using assms build_output_no_note
  by (auto simp add: summarize_recipe_def step1_def fallback_def log_call_def show_error_def
      parsing_error_def fallback_error_def loading_message_def Let_def
      split: sum.splits prod.splits)

text \<open>
  C1. The end-to-end scenario on the code: the native adapter raises
  \<^verbatim>\<open>WebsiteNotImplementedError\<close>, the page loads, the generic adapter returns the title
  \<^verbatim>\<open>Test Pie\<close> and nothing else. The output starts with the title segment, goes on with
  the servings and with the heading \<^verbatim>\<open>Times not available (check original page)\<close>, and
  holds no note segment, although all three library calls were made.
\<close>

theorem fallback_scenario_output:
  "output_text (summarize_recipe pie_env pie_gui) =
     [(lit ''Test Pie'' @ nl @ nl, Some Title),
      (lit ''Servings: N/A'' @ nl, Some Heading),
      (lit ''Times not available (check original page)'' @ nl, Some Heading),
      (lit ''Notes: No description available.'' @ nl @ nl, Some Heading),
      (lit ''Ingredients: (not found)'' @ nl @ nl, Some Heading),
      (lit ''Instructions: (not extracted '' @ [8211] @ lit '' see original site)'' @ nl,
       Some Heading)]
   \<and> calls (summarize_recipe pie_env pie_gui) =
       [ScrapeMe (lit ''https://example.com/pie''), RequestsGet (lit ''https://example.com/pie''),
        ScrapeHtml (lit ''<html>Test Pie</html>'') (lit ''https://example.com/pie'')]"
  by (simp add: summarize_recipe_def pie_env_def pie_gui_def step1_def fallback_def
      not_implemented_def isinstance_def page_def log_call_def show_error_def
      build_output_def try_build_def run_defs pie_scraper_def
      or_default_def description_text_def time_str_def time_methods_def
      strip_def strip_class_def isspace_def with_scheme_def startswith_def lit_def nl_def Let_def)

section \<open>The time line\<close>

text \<open>On an object that has the accessors under the names the program probes, the time
  line is the one the specification gives.\<close>

lemma probed_names_time_line:
  "time_loop probed_scraper time_methods [] = Inr [lit ''Total: 45 min'', lit ''Cook: varies'']
   \<and> time_str fb [lit ''Total: 45 min'', lit ''Cook: varies''] = lit ''Total: 45 min | Cook: varies''"
  by (simp add: probed_scraper_def time_methods_def time_try_def time_str_def str_int_def
      digits_of.simps lit_def)

text \<open>A float is cut toward zero, and NaN raises the \<^verbatim>\<open>ValueError\<close> that the loop
  drops.\<close>

lemma float_time_truncates:
  "time_try (Inr (TFloat (Finite (91 / 2)))) (lit ''Total'') = Inr [lit ''Total: 45 min'']
   \<and> time_try (Inr (TFloat (Finite (- 5 / 2)))) (lit ''Prep'') = Inr [lit ''Prep: -2 min'']
   \<and> time_try (Inr (TFloat NaN)) (lit ''Cook'')
       = Inl (Exn [ValueError] (lit ''cannot convert float NaN to integer''))"
proof -
  have up: "\<lfloor>91 / 2 :: rat\<rfloor> = 45"
    by (simp add: floor_eq_iff)
  have down: "\<lceil>- (5 / 2) :: rat\<rceil> = - 2"
    by (simp add: ceiling_eq_iff)
  show ?thesis
    by (simp add: time_try_def int_of_float_def up down str_int_def digits_of.simps lit_def)
qed

text \<open>
  C2. The extraction result of the claim, with the accessors \<^verbatim>\<open>total_time\<close>,
  \<^verbatim>\<open>prep_time\<close> and \<^verbatim>\<open>cook_time\<close>, on the code: the program probes \<^verbatim>\<open>preptime\<close> and
  \<^verbatim>\<open>cooktime\<close>, finds neither, and the time line is \<^verbatim>\<open>Total: 45 min\<close> alone.
\<close>

theorem library_names_time_line:
  "attrs timed_scraper ''cook_time'' = Some (Inr (TStr (lit ''varies'')))
   \<and> time_loop timed_scraper time_methods [] = Inr [lit ''Total: 45 min'']
   \<and> build_output timed_scraper False [] =
       [(lit ''Test Pie'' @ nl @ nl, Some Title),
        (lit ''Servings: N/A'' @ nl, Some Heading),
        (lit ''Total: 45 min'' @ nl, Some Heading),
        (lit ''Notes: No description available.'' @ nl @ nl, Some Heading),
        (lit ''Ingredients: (not found)'' @ nl @ nl, Some Heading),
        (lit ''Instructions: (not extracted '' @ [8211] @ lit '' see original site)'' @ nl,
         Some Heading)]"
  by (simp add: timed_scraper_def pie_scraper_def build_output_def try_build_def run_defs
      or_default_def description_text_def time_str_def time_methods_def time_try_def
      str_int_def digits_of.simps lit_def nl_def)

section \<open>The name of the saved file\<close>

lemma sub_spaces_collapse: "sub_spaces s = spec_collapse s"
  by (induction s rule: spec_collapse.induct) auto

lemma sub_spaces_chars: "set (sub_spaces s) \<subseteq> insert 95 {c \<in> set s. \<not> isspace c}"
proof (induction s rule: sub_spaces.induct)
  case 1
  show ?case by simp
next
  case (2 c cs)
  have "set (dropWhile isspace cs) \<subseteq> set cs"
    by (rule set_dropWhileD[THEN subsetI])
  with 2 show ?case
    by auto
qed

lemma strip_class_subset: "set (strip_class P s) \<subseteq> set s"
proof
  fix x
  assume "x \<in> set (strip_class P s)"
  then have "x \<in> set (dropWhile P (rev (dropWhile P s)))"
    by (simp add: strip_class_def)
  then have "x \<in> set (rev (dropWhile P s))"
    by (rule set_dropWhileD)
  then have "x \<in> set (dropWhile P s)"
    by simp
  then show "x \<in> set s"
    by (rule set_dropWhileD)
qed

lemma strip_class_ends:
  assumes "strip_class P s \<noteq> []"
  shows "\<not> P (hd (strip_class P s)) \<and> \<not> P (last (strip_class P s))"
proof -
  let ?a = "dropWhile P s"
  let ?b = "dropWhile P (rev ?a)"
  have b: "?b \<noteq> []"
    using assms by (simp add: strip_class_def)
  have a: "?a \<noteq> []"
  proof
    assume empty: "?a = []"
    show False
      using b unfolding empty by simp
  qed
  have "last (strip_class P s) = hd ?b"
    using b by (simp add: strip_class_def last_rev)
  moreover have "\<not> P (hd ?b)"
    using b by (rule hd_dropWhile)
  moreover have "hd (strip_class P s) = last ?b"
    using b by (simp add: strip_class_def hd_rev)
  moreover have "last ?b = last (rev ?a)"
  proof -
    have "rev ?a = takeWhile P (rev ?a) @ ?b"
      by simp
    then show ?thesis
      using b by (metis last_appendR)
  qed
  moreover have "last (rev ?a) = hd ?a"
    using a by (simp add: last_rev)
  moreover have "\<not> P (hd ?a)"
    using a by (rule hd_dropWhile)
  ultimately show ?thesis
    by simp
qed

lemma clean_title_refines:
  "clean_title wide t = spec_sanitize_class (\<lambda>c. isword wide c \<or> isspace c \<or> c = 45) t"
  by (simp add: clean_title_def spec_sanitize_class_def sub_spaces_collapse)

lemma ascii_class: "c < 128 \<Longrightarrow> (isword wide c \<or> isspace c \<or> c = 45) = spec_allowed c"
  by (auto simp add: isword_def isalnum_latin1_def spec_allowed_def ascii_letter_def ascii_digit_def)

lemma clean_title_ascii:
  assumes "list_all (\<lambda>c. c < 128) t"
  shows "clean_title wide t = spec_sanitize t"
proof -
  have "filter (\<lambda>c. isword wide c \<or> isspace c \<or> c = 45) t = filter spec_allowed t"
    using assms by (intro filter_cong) (auto simp add: list_all_iff ascii_class)
  then show ?thesis
    by (simp add: clean_title_refines spec_sanitize_def spec_sanitize_class_def)
qed

lemma clean_title_chars: "list_all (\<lambda>c. isword wide c \<or> c = 45) (clean_title wide t)"
proof -
  let ?kept = "filter (\<lambda>c. isword wide c \<or> isspace c \<or> c = 45) t"
  have "set (strip_class (\<lambda>c. c = 95) (sub_spaces ?kept)) \<subseteq> insert 95 {c \<in> set ?kept. \<not> isspace c}"
    using strip_class_subset sub_spaces_chars by blast
  moreover have "isword wide 95"
    by (simp add: isword_def)
  then have "\<forall>c \<in> insert 95 {c \<in> set ?kept. \<not> isspace c}. isword wide c \<or> c = 45"
    by auto
  ultimately have "list_all (\<lambda>c. isword wide c \<or> c = 45) (strip_class (\<lambda>c. c = 95) (sub_spaces ?kept))"
    unfolding list_all_iff by blast
  moreover have "list_all (\<lambda>c. isword wide c \<or> c = 45) (lit ''edited_recipe'')"
    by (simp add: lit_def isword_def isalnum_latin1_def)
  ultimately show ?thesis
    by (simp add: clean_title_def Let_def)
qed

lemma clean_title_ends:
  "clean_title wide t \<noteq> [] \<and> hd (clean_title wide t) \<noteq> 95 \<and> last (clean_title wide t) \<noteq> 95"
  using strip_class_ends [of "\<lambda>c. c = 95"]
  by (auto simp add: clean_title_def Let_def lit_def)

text \<open>The timestamp of a date with a year below 10000: four digits, a hyphen, two
  digits, a hyphen, two digits, an underscore and four digits.\<close>

lemma digits_are_digits: "list_all ascii_digit (digits_of n)"
proof (induction n rule: digits_of.induct)
  case (1 n)
  show ?case
  proof (cases "n < 10")
    case True
    then show ?thesis
      by (subst digits_of.simps) (simp add: ascii_digit_def)
  next
    case False
    then have "list_all ascii_digit (digits_of (n div 10))"
      by (rule "1.IH")
    moreover have "ascii_digit (48 + n mod 10)"
      by (simp add: ascii_digit_def)
    ultimately show ?thesis
      using False by (subst digits_of.simps) simp
  qed
qed

lemma digits_length_2: "n < 100 \<Longrightarrow> length (digits_of n) \<le> 2"
  by (subst digits_of.simps, subst digits_of.simps) auto

lemma digits_length_4: "n < 10000 \<Longrightarrow> length (digits_of n) \<le> 4"
  by (subst digits_of.simps, subst digits_of.simps, subst digits_of.simps, subst digits_of.simps) auto

lemma zero_pad_length: "length (digits_of n) \<le> k \<Longrightarrow> length (zero_pad k n) = k"
  by (simp add: zero_pad_def)

lemma zero_pad_digits: "list_all ascii_digit (zero_pad k n)"
  using digits_are_digits [of n] by (auto simp add: zero_pad_def list_all_iff ascii_digit_def)

lemma timestamp_shape:
  assumes "year now < 10000" and "month now < 100" and "day now < 100"
    and "hour now < 100" and "minute now < 100"
  shows "\<exists>y m d h mi.
           timestamp now = y @ lit ''-'' @ m @ lit ''-'' @ d @ lit ''_'' @ h @ mi
           \<and> length y = 4 \<and> length m = 2 \<and> length d = 2 \<and> length h = 2 \<and> length mi = 2
           \<and> list_all ascii_digit (y @ m @ d @ h @ mi)"
proof (intro exI conjI)
  show "timestamp now =
          zero_pad 4 (year now) @ lit ''-'' @ zero_pad 2 (month now) @ lit ''-''
            @ zero_pad 2 (day now) @ lit ''_'' @ zero_pad 2 (hour now) @ zero_pad 2 (minute now)"
    by (simp add: timestamp_def)
  show "length (zero_pad 4 (year now)) = 4"
    using assms(1) by (simp add: zero_pad_length digits_length_4)
  show "length (zero_pad 2 (month now)) = 2"
    using assms(2) by (simp add: zero_pad_length digits_length_2)
  show "length (zero_pad 2 (day now)) = 2"
    using assms(3) by (simp add: zero_pad_length digits_length_2)
  show "length (zero_pad 2 (hour now)) = 2"
    using assms(4) by (simp add: zero_pad_length digits_length_2)
  show "length (zero_pad 2 (minute now)) = 2"
    using assms(5) by (simp add: zero_pad_length digits_length_2)
  show "list_all ascii_digit
          (zero_pad 4 (year now) @ zero_pad 2 (month now) @ zero_pad 2 (day now)
             @ zero_pad 2 (hour now) @ zero_pad 2 (minute now))"
    by (simp add: zero_pad_digits)
qed

lemma sample_timestamp: "timestamp clock = lit ''2026-11-03_0907''"
  by (simp add: timestamp_def clock_def zero_pad_def digits_of.simps lit_def)

lemma sample_first_line:
  "first_line (nl @ lit ''  Mom's Apple Pie!'' @ nl @ nl @ lit ''Servings: 8'' @ nl)
     = lit ''Mom's Apple Pie!''"
  by (simp add: first_line_def splitlines_def linebreak_def strip_def strip_class_def
      isspace_def lit_def nl_def)

text \<open>
  C7, as the claim states it, fails. The title is \<^verbatim>\<open>Caf\<close> followed by U+00E9, the letter
  e with an acute accent. That letter lies outside \<^verbatim>\<open>[A-Za-z0-9_\s-]\<close> and the
  specification's sanitize removes it, but \<^verbatim>\<open>\w\<close> matches it and the program keeps it.
\<close>

theorem accented_letter_counterexample:
  "clean_title greek [67, 97, 102, 233] = [67, 97, 102, 233]
   \<and> spec_sanitize [67, 97, 102, 233] = [67, 97, 102]"
  by (simp add: clean_title_def spec_sanitize_def spec_sanitize_class_def spec_allowed_def
      ascii_letter_def ascii_digit_def lit_def isword_def isalnum_latin1_def isspace_def
      strip_class_def)

text \<open>
  C7, amended. The cleaned title is the specification's sanitize with the class
  \<^verbatim>\<open>[\w\s-]\<close> of Python in place of \<^verbatim>\<open>[A-Za-z0-9_\s-]\<close>: every character that is neither
  a Unicode letter or digit, an underscore, whitespace nor a hyphen is removed, whitespace
  runs become single underscores, underscores are trimmed at both ends, and
  \<^verbatim>\<open>edited_recipe\<close> stands in for an empty result. On a title of ASCII characters this is
  the specification's sanitize itself. The result is never empty, holds only word
  characters and hyphens, and neither starts nor ends with an underscore;
  \<^verbatim>\<open>Mom's Apple Pie!\<close> gives \<^verbatim>\<open>Moms_Apple_Pie\<close>. The file is the cleaned first line
  with \<^verbatim>\<open>.txt\<close>, and with an underscore and the timestamp before \<^verbatim>\<open>.txt\<close> when that file
  exists.
\<close>

theorem filename_rule:
  "clean_title wide t = spec_sanitize_class (\<lambda>c. isword wide c \<or> isspace c \<or> c = 45) t
   \<and> (list_all (\<lambda>c. c < 128) t \<longrightarrow> clean_title wide t = spec_sanitize t)
   \<and> list_all (\<lambda>c. isword wide c \<or> c = 45) (clean_title wide t)
   \<and> clean_title wide t \<noteq> [] \<and> hd (clean_title wide t) \<noteq> 95 \<and> last (clean_title wide t) \<noteq> 95
   \<and> clean_title wide (lit ''Mom's Apple Pie!'') = lit ''Moms_Apple_Pie''
   \<and> file_path wide path_exists now txt =
       (if path_exists (clean_title wide (first_line txt) @ lit ''.txt'')
        then clean_title wide (first_line txt) @ lit ''_'' @ timestamp now @ lit ''.txt''
        else clean_title wide (first_line txt) @ lit ''.txt'')"
proof -
  have "clean_title wide (lit ''Mom's Apple Pie!'') = lit ''Moms_Apple_Pie''"
    by (simp add: clean_title_def lit_def isword_def isalnum_latin1_def isspace_def
        strip_class_def)
  moreover have "file_path wide path_exists now txt =
       (if path_exists (clean_title wide (first_line txt) @ lit ''.txt'')
        then clean_title wide (first_line txt) @ lit ''_'' @ timestamp now @ lit ''.txt''
        else clean_title wide (first_line txt) @ lit ''.txt'')"
    by (simp add: file_path_def Let_def)
  ultimately show ?thesis
    using clean_title_refines [of wide t] clean_title_ascii [of t wide]
      clean_title_chars [of wide t] clean_title_ends [of wide t]
    by blast
qed

theorem filename_rule_witness:
  "list_all (\<lambda>c. c < 128) (lit ''Mom's Apple Pie!'')
   \<and> spec_sanitize (lit ''Mom's Apple Pie!'') = lit ''Moms_Apple_Pie''
   \<and> existing (lit ''Moms_Apple_Pie.txt'')
   \<and> file_path greek existing clock
        (nl @ lit ''  Mom's Apple Pie!'' @ nl @ nl @ lit ''Servings: 8'' @ nl)
       = lit ''Moms_Apple_Pie_2026-11-03_0907.txt''"
proof -
  have ascii: "list_all (\<lambda>c. c < 128) (lit ''Mom's Apple Pie!'')"
    by (simp add: lit_def)
  have there: "existing (lit ''Moms_Apple_Pie.txt'')"
    by (simp add: existing_def)
  note rule = filename_rule [of greek "lit ''Mom's Apple Pie!''" existing clock
      "nl @ lit ''  Mom's Apple Pie!'' @ nl @ nl @ lit ''Servings: 8'' @ nl"]
  from rule have refine: "list_all (\<lambda>c. c < 128) (lit ''Mom's Apple Pie!'') \<longrightarrow>
      clean_title greek (lit ''Mom's Apple Pie!'') = spec_sanitize (lit ''Mom's Apple Pie!'')"
    by blast
  from rule have cleaned: "clean_title greek (lit ''Mom's Apple Pie!'') = lit ''Moms_Apple_Pie''"
    by blast
  from rule have path: "file_path greek existing clock
        (nl @ lit ''  Mom's Apple Pie!'' @ nl @ nl @ lit ''Servings: 8'' @ nl) =
       (if existing (clean_title greek (first_line
              (nl @ lit ''  Mom's Apple Pie!'' @ nl @ nl @ lit ''Servings: 8'' @ nl)) @ lit ''.txt'')
        then clean_title greek (first_line
              (nl @ lit ''  Mom's Apple Pie!'' @ nl @ nl @ lit ''Servings: 8'' @ nl))
             @ lit ''_'' @ timestamp clock @ lit ''.txt''
        else clean_title greek (first_line
              (nl @ lit ''  Mom's Apple Pie!'' @ nl @ nl @ lit ''Servings: 8'' @ nl)) @ lit ''.txt'')"
    by blast
  from refine ascii cleaned
  have same: "spec_sanitize (lit ''Mom's Apple Pie!'') = lit ''Moms_Apple_Pie''"
    by simp
  have taken: "existing (lit ''Moms_Apple_Pie'' @ lit ''.txt'')"
    by (simp add: existing_def lit_def)
  have "file_path greek existing clock
        (nl @ lit ''  Mom's Apple Pie!'' @ nl @ nl @ lit ''Servings: 8'' @ nl)
       = lit ''Moms_Apple_Pie'' @ lit ''_'' @ lit ''2026-11-03_0907'' @ lit ''.txt''"
    unfolding path sample_first_line cleaned sample_timestamp using taken by simp
  then show ?thesis
    using ascii there same by (simp add: lit_def)
qed

end
